theory Spec2Isabelle
  imports Complex_Main "HOL-Library.Multiset"
begin

section \<open>Numbers\<close>

text \<open>
  The program computes with the \<open>number\<close> type of TypeScript. A number is modelled as a
  finite value, one of the two infinities, or NaN. Finite values are exact rationals: the
  rounding error and the overflow of binary floating point are not part of the model. What
  is part of it is that no arithmetic operation fails: a division by zero yields an
  infinity or NaN, and NaN propagates and compares false with everything, itself included.
  Zero has no sign in the model; every divisor that can be zero is read as \<open>+0\<close>.
\<close>

datatype jsnum = Fin rat | PInf | NInf | NaN

fun js_neg :: "jsnum \<Rightarrow> jsnum" where
  "js_neg (Fin a) = Fin (- a)"
| "js_neg PInf = NInf"
| "js_neg NInf = PInf"
| "js_neg NaN = NaN"

fun js_add :: "jsnum \<Rightarrow> jsnum \<Rightarrow> jsnum" where
  "js_add (Fin a) (Fin b) = Fin (a + b)"
| "js_add NaN _ = NaN"
| "js_add _ NaN = NaN"
| "js_add PInf NInf = NaN"
| "js_add NInf PInf = NaN"
| "js_add PInf _ = PInf"
| "js_add _ PInf = PInf"
| "js_add NInf _ = NInf"
| "js_add _ NInf = NInf"

definition js_sub :: "jsnum \<Rightarrow> jsnum \<Rightarrow> jsnum" where
  "js_sub a b = js_add a (js_neg b)"

fun js_mul :: "jsnum \<Rightarrow> jsnum \<Rightarrow> jsnum" where
  "js_mul (Fin a) (Fin b) = Fin (a * b)"
| "js_mul NaN _ = NaN"
| "js_mul _ NaN = NaN"
| "js_mul PInf (Fin b) = (if b = 0 then NaN else if 0 < b then PInf else NInf)"
| "js_mul NInf (Fin b) = (if b = 0 then NaN else if 0 < b then NInf else PInf)"
| "js_mul (Fin a) PInf = (if a = 0 then NaN else if 0 < a then PInf else NInf)"
| "js_mul (Fin a) NInf = (if a = 0 then NaN else if 0 < a then NInf else PInf)"
| "js_mul PInf PInf = PInf"
| "js_mul PInf NInf = NInf"
| "js_mul NInf PInf = NInf"
| "js_mul NInf NInf = PInf"

fun js_div :: "jsnum \<Rightarrow> jsnum \<Rightarrow> jsnum" where
  "js_div (Fin a) (Fin b) =
     (if b = 0 then (if a = 0 then NaN else if 0 < a then PInf else NInf)
      else Fin (a / b))"
| "js_div NaN _ = NaN"
| "js_div _ NaN = NaN"
| "js_div (Fin a) PInf = Fin 0"
| "js_div (Fin a) NInf = Fin 0"
| "js_div PInf (Fin b) = (if 0 \<le> b then PInf else NInf)"
| "js_div NInf (Fin b) = (if 0 \<le> b then NInf else PInf)"
| "js_div PInf PInf = NaN"
| "js_div PInf NInf = NaN"
| "js_div NInf PInf = NaN"
| "js_div NInf NInf = NaN"

text \<open>\<open>Math.abs\<close>.\<close>

fun js_abs :: "jsnum \<Rightarrow> jsnum" where
  "js_abs (Fin a) = Fin \<bar>a\<bar>"
| "js_abs PInf = PInf"
| "js_abs NInf = PInf"
| "js_abs NaN = NaN"

text \<open>The comparison \<open>a > b\<close>: false as soon as one side is NaN.\<close>

fun js_gt :: "jsnum \<Rightarrow> jsnum \<Rightarrow> bool" where
  "js_gt (Fin a) (Fin b) = (b < a)"
| "js_gt NaN _ = False"
| "js_gt _ NaN = False"
| "js_gt PInf PInf = False"
| "js_gt PInf _ = True"
| "js_gt _ PInf = False"
| "js_gt NInf _ = False"
| "js_gt _ NInf = True"

text \<open>Strict equality \<open>a === b\<close> on numbers: NaN is not equal to itself.\<close>

definition js_eq :: "jsnum \<Rightarrow> jsnum \<Rightarrow> bool" where
  "js_eq a b = (a \<noteq> NaN \<and> a = b)"

definition js_ge :: "jsnum \<Rightarrow> jsnum \<Rightarrow> bool" where
  "js_ge a b = (js_gt a b \<or> js_eq a b)"

text \<open>\<open>Math.round\<close>: the nearest integer, a tie going up (towards plus infinity).\<close>

fun js_round :: "jsnum \<Rightarrow> jsnum" where
  "js_round (Fin a) = Fin (of_int \<lfloor>a + 1 / 2\<rfloor>)"
| "js_round x = x"

section \<open>Data model\<close>

record CandleData =
  market :: string
  candle_date_time_utc :: string
  candle_date_time_kst :: string
  opening_price :: jsnum
  high_price :: jsnum
  low_price :: jsnum
  trade_price :: jsnum
  timestamp :: jsnum
  candle_acc_trade_price :: jsnum
  candle_acc_trade_volume :: jsnum

record MarketInfo =
  market :: string
  korean_name :: string
  english_name :: string

record CoinMetrics =
  market :: string
  koreanName :: string
  currentPrice :: jsnum
  volume24h :: jsnum
  rsi :: jsnum
  priceChange24h :: jsnum
  priceChangePercent :: jsnum

section \<open>The RSI calculator\<close>

text \<open>
  The loop of \<open>calculateRSI\<close>, \<open>for (let i = 1; i <= period; i++)\<close>, with its two
  accumulators. The period is an integer count (the parameter defaults to 14, and the
  aggregator calls with the default). The caller has checked that the list has more than
  \<open>period\<close> elements, so both reads are in range whenever the body runs.
\<close>

function rsi_loop :: "jsnum list \<Rightarrow> int \<Rightarrow> int \<Rightarrow> jsnum \<Rightarrow> jsnum \<Rightarrow> jsnum \<times> jsnum" where
  "rsi_loop prices period i gains losses =
     (if i \<le> period then
        (let change = js_sub (prices ! nat i) (prices ! nat (i - 1))
         in if js_gt change (Fin 0)
            then rsi_loop prices period (i + 1) (js_add gains change) losses
            else rsi_loop prices period (i + 1) gains (js_add losses (js_abs change)))
      else (gains, losses))"
  by pat_completeness auto
termination
  by (relation "measure (\<lambda>(prices, period, i, gains, losses). nat (period + 1 - i))") auto

declare rsi_loop.simps [simp del]

definition calculateRSI :: "CandleData list \<Rightarrow> int \<Rightarrow> jsnum" where
  "calculateRSI candles period =
     (if int (length candles) < period + 1 then Fin 50
      else
        (let prices = rev (map trade_price candles);
             (gains, losses) = rsi_loop prices period 1 (Fin 0) (Fin 0);
             avgGain = js_div gains (Fin (of_int period));
             avgLoss = js_div losses (Fin (of_int period))
         in if js_eq avgLoss (Fin 0) then Fin 100
            else
              (let rs = js_div avgGain avgLoss;
                   rsi = js_sub (Fin 100) (js_div (Fin 100) (js_add (Fin 1) rs))
               in js_div (js_round (js_mul rsi (Fin 100))) (Fin 100))))"






text \<open>
  The same changes over numbers that need not be finite, and the test \<open>0 <= x && x <= 100\<close>
  for a value of the indicator.
\<close>

definition price_changes :: "jsnum list \<Rightarrow> jsnum list" where
  "price_changes ps = map (\<lambda>(a, b). js_sub b a) (zip ps (tl ps))"





text \<open>A candle that carries a trade price and a volume, for the examples.\<close>

definition candle :: "jsnum \<Rightarrow> CandleData" where
  "candle p = \<lparr> CandleData.market = ''KRW-BTC'', candle_date_time_utc = [],
     candle_date_time_kst = [], opening_price = p, high_price = p, low_price = p,
     trade_price = p, timestamp = Fin 0, candle_acc_trade_price = Fin 0,
     candle_acc_trade_volume = Fin 7 \<rparr>"

section \<open>The market data client\<close>

text \<open>
  The upstream service is outside the program. A request either gets no response (the
  \<open>fetch\<close> promise rejects) or a response with a status and a body; the body decodes as
  JSON to a value, or does not. \<open>fetchUpbitAPI\<close> turns every failure into an error
  value: the rejection, a status outside 200 to 299 (\<open>!response.ok\<close>), a body that is not
  JSON. The two endpoints the program reads are typed by what it expects from them.
\<close>

datatype 'a reply = Unreachable | Reply nat "'a option"

datatype error = NetworkError | UpbitApiError nat | DecodeError

record upstream =
  market_all :: "MarketInfo list reply"
  candles_days :: "string \<Rightarrow> CandleData list reply"

fun fetchUpbitAPI :: "(string \<Rightarrow> 'a reply) \<Rightarrow> string \<Rightarrow> error + 'a" where
  "fetchUpbitAPI server endpoint =
     (case server endpoint of
        Unreachable \<Rightarrow> Inl NetworkError
      | Reply status body \<Rightarrow>
          if \<not> (200 \<le> status \<and> status \<le> 299) then Inl (UpbitApiError status)
          else (case body of None \<Rightarrow> Inl DecodeError | Some v \<Rightarrow> Inr v))"

section \<open>The metrics aggregator\<close>

definition startsWith :: "string \<Rightarrow> string \<Rightarrow> bool" where
  "startsWith s p = (take (length p) s = p)"

definition candles_endpoint :: "MarketInfo \<Rightarrow> string" where
  "candles_endpoint m = ''/v1/candles/days?market='' @ MarketInfo.market m @ ''&count=15''"

text \<open>
  The body of the function mapped over the candidate markets. Its \<open>try\<close> block catches a
  failed fetch and yields \<open>null\<close> (here \<open>None\<close>), as does a series of fewer than two
  candles. Nothing else in the block can throw: the arithmetic never fails.
\<close>

definition market_metrics :: "upstream \<Rightarrow> MarketInfo \<Rightarrow> CoinMetrics option" where
  "market_metrics u m =
     (case fetchUpbitAPI (candles_days u) (candles_endpoint m) of
        Inl e \<Rightarrow> None
      | Inr candles \<Rightarrow>
          if length candles < 2 then None
          else
            (let currentPrice = trade_price (candles ! 0);
                 volume24h = candle_acc_trade_volume (candles ! 0);
                 priceYesterday = trade_price (candles ! 1);
                 priceChange24h = js_sub currentPrice priceYesterday;
                 priceChangePercent = js_mul (js_div priceChange24h priceYesterday) (Fin 100);
                 rsi = calculateRSI candles 14
             in Some \<lparr> CoinMetrics.market = MarketInfo.market m,
                       koreanName = korean_name m,
                       currentPrice = currentPrice,
                       volume24h = volume24h,
                       rsi = rsi,
                       priceChange24h = priceChange24h,
                       priceChangePercent = priceChangePercent \<rparr>))"

definition krwMarkets :: "MarketInfo list \<Rightarrow> MarketInfo list" where
  "krwMarkets markets = take 30 (filter (\<lambda>m. startsWith (MarketInfo.market m) ''KRW-'') markets)"

text \<open>
  \<open>Promise.all\<close> keeps the order of the candidates, and no branch shares state with
  another, so the fan-out is a map over the candidates. A failure of the market list is
  not caught here: it is the error of the whole call.
\<close>

definition getCoinMetrics :: "upstream \<Rightarrow> error + CoinMetrics list" where
  "getCoinMetrics u =
     (case fetchUpbitAPI (\<lambda>_. market_all u) ''/v1/market/all'' of
        Inl e \<Rightarrow> Inl e
      | Inr markets \<Rightarrow>
          (let results = map (market_metrics u) (krwMarkets markets)
           in Inr (map the (filter (\<lambda>r. r \<noteq> None) results))))"

text \<open>
  An upstream with three markets, two of them in the target currency, and a given reply
  for each of the two candle series; for the examples.
\<close>

definition market_info :: "string \<Rightarrow> MarketInfo" where
  "market_info name = \<lparr> MarketInfo.market = name, korean_name = name, english_name = name \<rparr>"

definition example_upstream :: "CandleData list reply \<Rightarrow> CandleData list reply \<Rightarrow> upstream" where
  "example_upstream btc eth =
     \<lparr> market_all = Reply 200 (Some [market_info ''KRW-BTC'', market_info ''BTC-ETH'',
                                      market_info ''KRW-ETH'']),
       candles_days = (\<lambda>endpoint.
         if endpoint = ''/v1/candles/days?market=KRW-BTC&count=15'' then btc
         else if endpoint = ''/v1/candles/days?market=KRW-ETH&count=15'' then eth
         else Reply 404 None) \<rparr>"

section \<open>The dashboard\<close>

text \<open>
  \<open>Array.prototype.sort\<close> is a builtin. It sorts the array in place and is stable; a
  comparator result that is NaN counts as zero. It is modelled as a stable insertion
  sort: an element moves behind exactly the elements the comparator puts it after.
\<close>

fun sort_insert :: "('a \<Rightarrow> 'a \<Rightarrow> jsnum) \<Rightarrow> 'a \<Rightarrow> 'a list \<Rightarrow> 'a list" where
  "sort_insert cmp x [] = [x]"
| "sort_insert cmp x (y # ys) =
     (if js_gt (cmp x y) (Fin 0) then y # sort_insert cmp x ys else x # y # ys)"

definition js_sort :: "('a \<Rightarrow> 'a \<Rightarrow> jsnum) \<Rightarrow> 'a list \<Rightarrow> 'a list" where
  "js_sort cmp xs = foldr (sort_insert cmp) xs []"

text \<open>
  Arrays are objects: the caller and \<open>generateDashboard\<close> hold references to them. The
  store is the list of all arrays, a reference is an index into it. The spread
  \<open>[...metrics]\<close> allocates a new array with the same elements; \<open>sort\<close> overwrites the
  array it is called on. The records are never assigned to, so they are plain values.
\<close>

type_synonym store = "CoinMetrics list list"

definition array_copy :: "store \<Rightarrow> nat \<Rightarrow> nat \<times> store" where
  "array_copy h a = (length h, h @ [h ! a])"

definition array_sort :: "(CoinMetrics \<Rightarrow> CoinMetrics \<Rightarrow> jsnum) \<Rightarrow> store \<Rightarrow> nat \<Rightarrow> store" where
  "array_sort cmp h a = h[a := js_sort cmp (h ! a)]"

text \<open>The sorting block of \<open>generateDashboard\<close>: the reference \<open>sortedMetrics\<close> and the store.\<close>

definition sortedMetrics :: "store \<Rightarrow> nat \<Rightarrow> string \<Rightarrow> nat \<times> store" where
  "sortedMetrics h metrics sortBy =
     (let (sorted, h1) = array_copy h metrics
      in if sortBy = ''volume'' then
           (sorted, array_sort (\<lambda>a b. js_sub (volume24h b) (volume24h a)) h1 sorted)
         else if sortBy = ''rsi'' then
           (sorted, array_sort (\<lambda>a b. js_sub (rsi b) (rsi a)) h1 sorted)
         else if sortBy = ''change'' then
           (sorted, array_sort (\<lambda>a b. js_sub (priceChangePercent b) (priceChangePercent a)) h1 sorted)
         else (sorted, h1))"

text \<open>
  The rest of the function is string formatting. The text of a table row (from a record and
  its index) and the page around the rows (from the sort key and the rows) are parameters.
\<close>

record template =
  row :: "CoinMetrics \<Rightarrow> nat \<Rightarrow> string"
  page :: "string \<Rightarrow> string \<Rightarrow> string"

definition rendered :: "store \<Rightarrow> nat \<Rightarrow> string \<Rightarrow> CoinMetrics list" where
  "rendered h metrics sortBy = (let (sorted, h') = sortedMetrics h metrics sortBy in h' ! sorted)"

definition generateDashboard :: "template \<Rightarrow> store \<Rightarrow> nat \<Rightarrow> string \<Rightarrow> string \<times> store" where
  "generateDashboard t h metrics sortBy =
     (let (sorted, h') = sortedMetrics h metrics sortBy;
          coins = h' ! sorted;
          rows = concat (map (\<lambda>(coin, index). row t coin index) (zip coins [0..<length coins]))
      in (page t sortBy rows, h'))"

text \<open>A record that carries a name and the three fields the dashboard sorts by.\<close>

definition coin :: "string \<Rightarrow> jsnum \<Rightarrow> jsnum \<Rightarrow> jsnum \<Rightarrow> CoinMetrics" where
  "coin name v r c = \<lparr> CoinMetrics.market = name, koreanName = name, currentPrice = Fin 1,
     volume24h = v, rsi = r, priceChange24h = Fin 0, priceChangePercent = c \<rparr>"

definition non_increasing :: "(CoinMetrics \<Rightarrow> jsnum) \<Rightarrow> CoinMetrics list \<Rightarrow> bool" where
  "non_increasing field coins = sorted_wrt (\<lambda>a b. js_ge (field a) (field b)) coins"

text \<open>A template that prints the market of each record and nothing else, and three records; for the examples.\<close>

definition plain_template :: template where
  "plain_template = \<lparr> row = (\<lambda>c index. CoinMetrics.market c), page = (\<lambda>sortBy rows. rows) \<rparr>"

definition example_coins :: "CoinMetrics list" where
  "example_coins = [coin ''A'' (Fin 2) (Fin 30) (Fin (- 1)), coin ''B'' PInf (Fin 80) NInf,
                    coin ''C'' (Fin 5) (Fin 50) (Fin 3)]"

section \<open>Arithmetic of the number model\<close>

lemma floor_rat_numeral [simp]:
  "\<lfloor>numeral a / numeral b :: rat\<rfloor> = numeral a div numeral b"
  by (metis floor_divide_of_int_eq of_int_numeral)

lemma floor_rat_one_numeral [simp]: "\<lfloor>1 / numeral b :: rat\<rfloor> = 1 div numeral b"
  by (metis floor_divide_of_int_eq of_int_numeral of_int_1)

section \<open>The loop of the calculator\<close>

lemma length_price_changes [simp]: "length (price_changes ps) = length ps - 1"
  by (simp add: price_changes_def)













lemma rsi_loop_cong:
  "1 \<le> i \<Longrightarrow> \<forall>j. int j \<le> period \<longrightarrow> prices ! j = prices' ! j \<Longrightarrow>
   rsi_loop prices period i gains losses = rsi_loop prices' period i gains losses"
proof (induction prices period i gains losses rule: rsi_loop.induct)
  case (1 prices period i gains losses)
  show ?case
  proof (cases "i \<le> period")
    case False
    then show ?thesis
      by (simp add: rsi_loop.simps [of prices period i] rsi_loop.simps [of prices' period i])
  next
    case True
    have a: "prices ! nat i = prices' ! nat i" "prices ! nat (i - 1) = prices' ! nat (i - 1)"
      using True "1.prems" by simp_all
    show ?thesis
    proof (cases "js_gt (js_sub (prices ! nat i) (prices ! nat (i - 1))) (Fin 0)")
      case gt: True
      show ?thesis
        using "1.IH"(1) [OF True refl gt] "1.prems" True gt a
        by (simp add: rsi_loop.simps [of prices period i] rsi_loop.simps [of prices' period i])
    next
      case ngt: False
      show ?thesis
        using "1.IH"(2) [OF True refl ngt] "1.prems" True ngt a
        by (simp add: rsi_loop.simps [of prices period i] rsi_loop.simps [of prices' period i])
    qed
  qed
qed






section \<open>Properties of the RSI calculator\<close>







text \<open>
  Claim C4, as amended. The calculator reads the oldest \<open>period + 1\<close> observations only:
  given a newest-first sequence of at least \<open>period + 1\<close> observations, putting newer
  observations in front of it (they come after index \<open>period\<close> in oldest-first order)
  does not change the value of \<open>calculateRSI\<close>. Appending older observations does
  change it, as the example after the theorem shows.
\<close>

theorem calculateRSI_newer_irrelevant:
  assumes "period + 1 \<le> int (length candles)"
  shows "calculateRSI (newer @ candles) period = calculateRSI candles period"
proof -
  have "\<forall>j. int j \<le> period \<longrightarrow>
          (rev (map trade_price candles) @ rev (map trade_price newer)) ! j
            = rev (map trade_price candles) ! j"
    using assms by (auto simp: nth_append)
  then have "rsi_loop (rev (map trade_price (newer @ candles))) period 1 (Fin 0) (Fin 0)
        = rsi_loop (rev (map trade_price candles)) period 1 (Fin 0) (Fin 0)"
    using rsi_loop_cong [of 1 period] by simp
  then show ?thesis using assms by (simp add: calculateRSI_def)
qed

theorem calculateRSI_newer_irrelevant_witness:
  "1 + 1 \<le> int (length [candle (Fin 2), candle (Fin 1)])
   \<and> calculateRSI ([candle (Fin 5)] @ [candle (Fin 2), candle (Fin 1)]) 1
       = calculateRSI [candle (Fin 2), candle (Fin 1)] 1"
  using calculateRSI_newer_irrelevant [of 1 "[candle (Fin 2), candle (Fin 1)]" "[candle (Fin 5)]"]
  by simp

theorem calculateRSI_older_counterexample:
  "calculateRSI ([candle (Fin 2), candle (Fin 1)] @ [candle (Fin 5)]) 1
     \<noteq> calculateRSI [candle (Fin 2), candle (Fin 1)] 1"
  by (simp add: calculateRSI_def candle_def rsi_loop.simps js_sub_def js_eq_def)

text \<open>
  Claim C5. With fewer than \<open>period + 1\<close> observations \<open>calculateRSI\<close> returns the
  neutral value 50: a number, whatever the prices are, and no error.
\<close>

theorem calculateRSI_sparse:
  "int (length candles) < period + 1 \<Longrightarrow> calculateRSI candles period = Fin 50"
  by (simp add: calculateRSI_def)

theorem calculateRSI_sparse_witness:
  "int (length [candle (Fin 3), candle NaN]) < 14 + 1
   \<and> calculateRSI [candle (Fin 3), candle NaN] 14 = Fin 50"
  using calculateRSI_sparse [of "[candle (Fin 3), candle NaN]" 14] by simp




section \<open>Properties of the metrics aggregator\<close>

lemma collect_set:
  "set (map the (filter (\<lambda>r. r \<noteq> None) (map f xs))) = {r. \<exists>x \<in> set xs. f x = Some r}"
  by (induction xs) auto

lemma market_metrics_market:
  "market_metrics u m = Some r \<Longrightarrow> CoinMetrics.market r = MarketInfo.market m"
  by (auto simp: market_metrics_def Let_def split: sum.splits if_splits)

lemma candles_endpoint_eq [simp]:
  "candles_endpoint m' = candles_endpoint m \<longleftrightarrow> MarketInfo.market m' = MarketInfo.market m"
  by (simp add: candles_endpoint_def)

lemma market_metrics_None:
  "market_metrics u m = None \<longleftrightarrow>
     (case fetchUpbitAPI (candles_days u) (candles_endpoint m) of
        Inl e \<Rightarrow> True | Inr candles \<Rightarrow> length candles < 2)"
  by (auto simp: market_metrics_def Let_def split: sum.splits)

lemma market_metrics_same_market:
  "MarketInfo.market m' = MarketInfo.market m \<Longrightarrow>
   market_metrics u m' = None \<longleftrightarrow> market_metrics u m = None"
  by (simp add: market_metrics_None candles_endpoint_def)

lemma collect_filter:
  assumes "\<And>x. x \<in> set xs \<Longrightarrow> p x \<Longrightarrow> f x = None \<and> (\<forall>r. g x = Some r \<longrightarrow> \<not> q r)"
    and "\<And>x. x \<in> set xs \<Longrightarrow> \<not> p x \<Longrightarrow> g x = f x \<and> (\<forall>r. f x = Some r \<longrightarrow> q r)"
  shows "map the (filter (\<lambda>r. r \<noteq> None) (map f xs))
       = filter q (map the (filter (\<lambda>r. r \<noteq> None) (map g xs)))"
  using assms
proof (induction xs)
  case Nil
  show ?case by simp
next
  case (Cons x xs)
  have IH: "map the (filter (\<lambda>r. r \<noteq> None) (map f xs))
       = filter q (map the (filter (\<lambda>r. r \<noteq> None) (map g xs)))"
  proof (rule Cons.IH)
    fix y assume "y \<in> set xs" "p y"
    then show "f y = None \<and> (\<forall>r. g y = Some r \<longrightarrow> \<not> q r)"
      using Cons.prems(1) [of y] by simp
  next
    fix y assume "y \<in> set xs" "\<not> p y"
    then show "g y = f y \<and> (\<forall>r. f y = Some r \<longrightarrow> q r)"
      using Cons.prems(2) [of y] by simp
  qed
  show ?case
  proof (cases "p x")
    case True
    then have "f x = None" "\<forall>r. g x = Some r \<longrightarrow> \<not> q r" using Cons.prems(1) [of x] by simp_all
    then show ?thesis using IH by (cases "g x") simp_all
  next
    case False
    then have "g x = f x" "\<forall>r. f x = Some r \<longrightarrow> q r" using Cons.prems(2) [of x] by simp_all
    then show ?thesis using IH by (cases "f x") simp_all
  qed
qed

lemma example_markets:
  "fetchUpbitAPI (\<lambda>_. market_all (example_upstream btc eth)) ''/v1/market/all''
     = Inr [market_info ''KRW-BTC'', market_info ''BTC-ETH'', market_info ''KRW-ETH'']"
  by (simp add: example_upstream_def)

lemma example_krwMarkets:
  "krwMarkets [market_info ''KRW-BTC'', market_info ''BTC-ETH'', market_info ''KRW-ETH'']
     = [market_info ''KRW-BTC'', market_info ''KRW-ETH'']"
  by (simp add: krwMarkets_def startsWith_def market_info_def)

lemma example_btc:
  "candles_days (example_upstream btc eth) (candles_endpoint (market_info ''KRW-BTC'')) = btc"
  by (simp add: example_upstream_def candles_endpoint_def market_info_def)

lemma example_eth:
  "candles_days (example_upstream btc eth) (candles_endpoint (market_info ''KRW-ETH'')) = eth"
  by (simp add: example_upstream_def candles_endpoint_def market_info_def)

lemma example_update:
  "(example_upstream btc eth)\<lparr>candles_days :=
      (candles_days (example_upstream btc eth))(candles_endpoint (market_info ''KRW-BTC'') := reply)\<rparr>
     = example_upstream reply eth"
  by (auto simp: example_upstream_def candles_endpoint_def market_info_def fun_eq_iff)




text \<open>
  Claim C7. For a candidate market whose candle fetch succeeds, the output of
  \<open>getCoinMetrics\<close> holds no record for that market when the series has fewer than two
  candles, and holds a record for it when the series has two or more.
\<close>

theorem candle_count_gate:
  assumes "fetchUpbitAPI (\<lambda>_. market_all u) ''/v1/market/all'' = Inr markets"
    and "m \<in> set (krwMarkets markets)"
    and "fetchUpbitAPI (candles_days u) (candles_endpoint m) = Inr candles"
  shows "\<exists>out. getCoinMetrics u = Inr out
     \<and> (length candles < 2 \<longrightarrow> (\<forall>r \<in> set out. CoinMetrics.market r \<noteq> MarketInfo.market m))
     \<and> (2 \<le> length candles \<longrightarrow> (\<exists>r \<in> set out. CoinMetrics.market r = MarketInfo.market m))"
proof -
  let ?out = "map the (filter (\<lambda>r. r \<noteq> None) (map (market_metrics u) (krwMarkets markets)))"
  have out: "getCoinMetrics u = Inr ?out"
    using assms(1) by (simp add: getCoinMetrics_def del: fetchUpbitAPI.simps)
  have few: "\<forall>r \<in> set ?out. CoinMetrics.market r \<noteq> MarketInfo.market m" if "length candles < 2"
  proof
    fix r assume "r \<in> set ?out"
    then obtain m' where m': "m' \<in> set (krwMarkets markets)" "market_metrics u m' = Some r"
      unfolding collect_set by blast
    have "market_metrics u m = None"
      using assms(3) that by (simp add: market_metrics_None del: fetchUpbitAPI.simps)
    then have "MarketInfo.market m' \<noteq> MarketInfo.market m"
      using m'(2) market_metrics_same_market [of m' m u] by auto
    then show "CoinMetrics.market r \<noteq> MarketInfo.market m"
      using market_metrics_market [OF m'(2)] by simp
  qed
  have many: "\<exists>r \<in> set ?out. CoinMetrics.market r = MarketInfo.market m" if "2 \<le> length candles"
  proof -
    have "market_metrics u m \<noteq> None"
      using assms(3) that by (simp add: market_metrics_None del: fetchUpbitAPI.simps)
    then obtain r where r: "market_metrics u m = Some r" by auto
    then have "r \<in> set ?out" using assms(2) unfolding collect_set by blast
    then show ?thesis using market_metrics_market [OF r] by auto
  qed
  from out few many show ?thesis by blast
qed

theorem candle_count_gate_witness:
  "fetchUpbitAPI (\<lambda>_. market_all (example_upstream (Reply 200 (Some [candle (Fin 3)]))
         (Reply 200 (Some [candle (Fin 3), candle (Fin 2)])))) ''/v1/market/all''
     = Inr [market_info ''KRW-BTC'', market_info ''BTC-ETH'', market_info ''KRW-ETH'']
   \<and> market_info ''KRW-BTC''
       \<in> set (krwMarkets [market_info ''KRW-BTC'', market_info ''BTC-ETH'', market_info ''KRW-ETH''])
   \<and> market_info ''KRW-ETH''
       \<in> set (krwMarkets [market_info ''KRW-BTC'', market_info ''BTC-ETH'', market_info ''KRW-ETH''])
   \<and> fetchUpbitAPI (candles_days (example_upstream (Reply 200 (Some [candle (Fin 3)]))
         (Reply 200 (Some [candle (Fin 3), candle (Fin 2)]))))
       (candles_endpoint (market_info ''KRW-BTC'')) = Inr [candle (Fin 3)]
   \<and> fetchUpbitAPI (candles_days (example_upstream (Reply 200 (Some [candle (Fin 3)]))
         (Reply 200 (Some [candle (Fin 3), candle (Fin 2)]))))
       (candles_endpoint (market_info ''KRW-ETH'')) = Inr [candle (Fin 3), candle (Fin 2)]
   \<and> (\<exists>out. getCoinMetrics (example_upstream (Reply 200 (Some [candle (Fin 3)]))
         (Reply 200 (Some [candle (Fin 3), candle (Fin 2)]))) = Inr out
        \<and> ''KRW-BTC'' \<notin> CoinMetrics.market ` set out
        \<and> ''KRW-ETH'' \<in> CoinMetrics.market ` set out)"
proof -
  let ?u = "example_upstream (Reply 200 (Some [candle (Fin 3)]))
         (Reply 200 (Some [candle (Fin 3), candle (Fin 2)]))"
  let ?ms = "[market_info ''KRW-BTC'', market_info ''BTC-ETH'', market_info ''KRW-ETH'']"
  have a: "fetchUpbitAPI (\<lambda>_. market_all ?u) ''/v1/market/all'' = Inr ?ms"
    by (rule example_markets)
  have b: "market_info ''KRW-BTC'' \<in> set (krwMarkets ?ms)"
    and c: "market_info ''KRW-ETH'' \<in> set (krwMarkets ?ms)"
    by (simp_all add: example_krwMarkets)
  have d: "fetchUpbitAPI (candles_days ?u) (candles_endpoint (market_info ''KRW-BTC''))
             = Inr [candle (Fin 3)]"
    by (simp add: example_btc)
  have e: "fetchUpbitAPI (candles_days ?u) (candles_endpoint (market_info ''KRW-ETH''))
             = Inr [candle (Fin 3), candle (Fin 2)]"
    by (simp add: example_eth)
  from candle_count_gate [OF a b d]
  obtain out where out: "getCoinMetrics ?u = Inr out"
      "\<forall>r \<in> set out. CoinMetrics.market r \<noteq> MarketInfo.market (market_info ''KRW-BTC'')"
    by auto
  from candle_count_gate [OF a c e]
  obtain out2 where out2: "getCoinMetrics ?u = Inr out2"
      "\<exists>r \<in> set out2. CoinMetrics.market r = MarketInfo.market (market_info ''KRW-ETH'')"
    by auto
  have same: "out2 = out" using out(1) out2(1) by simp
  have "''KRW-BTC'' \<notin> CoinMetrics.market ` set out"
    using out(2) by (auto simp: market_info_def)
  moreover have "''KRW-ETH'' \<in> CoinMetrics.market ` set out"
    using out2(2) unfolding same by (force simp: market_info_def)
  ultimately show ?thesis using a b c d e out(1) by blast
qed

text \<open>
  Claim C8. When the candle fetch of a candidate market fails, \<open>getCoinMetrics\<close> still
  returns a collection; that collection holds no record for the failing market; and it is
  the collection that any other reply to that fetch would have given, with the records of
  that market left out: the records of all other markets are the same.
\<close>

theorem fetch_failure_isolated:
  assumes "fetchUpbitAPI (\<lambda>_. market_all u) ''/v1/market/all'' = Inr markets"
    and "m \<in> set (krwMarkets markets)"
    and "fetchUpbitAPI (candles_days u) (candles_endpoint m) = Inl e"
  shows "\<exists>out. getCoinMetrics u = Inr out
     \<and> (\<forall>r \<in> set out. CoinMetrics.market r \<noteq> MarketInfo.market m)
     \<and> (\<forall>reply. \<exists>out'.
           getCoinMetrics (u\<lparr>candles_days := (candles_days u)(candles_endpoint m := reply)\<rparr>) = Inr out'
           \<and> out = filter (\<lambda>r. CoinMetrics.market r \<noteq> MarketInfo.market m) out')"
proof -
  let ?out = "map the (filter (\<lambda>r. r \<noteq> None) (map (market_metrics u) (krwMarkets markets)))"
  have out: "getCoinMetrics u = Inr ?out"
    using assms(1) by (simp add: getCoinMetrics_def del: fetchUpbitAPI.simps)
  have none: "market_metrics u m' = None" if "MarketInfo.market m' = MarketInfo.market m" for m'
  proof -
    have "market_metrics u m = None"
      using assms(3) by (simp add: market_metrics_None del: fetchUpbitAPI.simps)
    then show ?thesis using market_metrics_same_market [OF that] by simp
  qed
  have absent: "\<forall>r \<in> set ?out. CoinMetrics.market r \<noteq> MarketInfo.market m"
  proof
    fix r assume "r \<in> set ?out"
    then obtain m' where m': "market_metrics u m' = Some r" unfolding collect_set by blast
    then have "MarketInfo.market m' \<noteq> MarketInfo.market m" using none [of m'] by auto
    then show "CoinMetrics.market r \<noteq> MarketInfo.market m"
      using market_metrics_market [OF m'] by simp
  qed
  have others: "\<exists>out'.
           getCoinMetrics (u\<lparr>candles_days := (candles_days u)(candles_endpoint m := reply)\<rparr>) = Inr out'
           \<and> ?out = filter (\<lambda>r. CoinMetrics.market r \<noteq> MarketInfo.market m) out'" for reply
  proof -
    let ?u = "u\<lparr>candles_days := (candles_days u)(candles_endpoint m := reply)\<rparr>"
    let ?out' = "map the (filter (\<lambda>r. r \<noteq> None) (map (market_metrics ?u) (krwMarkets markets)))"
    have "getCoinMetrics ?u = Inr ?out'"
      using assms(1) by (simp add: getCoinMetrics_def del: fetchUpbitAPI.simps)
    moreover have "?out = filter (\<lambda>r. CoinMetrics.market r \<noteq> MarketInfo.market m) ?out'"
    proof (rule collect_filter [where p = "\<lambda>x :: MarketInfo. MarketInfo.market x = MarketInfo.market m"])
      fix x :: MarketInfo assume "MarketInfo.market x = MarketInfo.market m"
      then show "market_metrics u x = None \<and>
        (\<forall>r. market_metrics ?u x = Some r \<longrightarrow> \<not> CoinMetrics.market r \<noteq> MarketInfo.market m)"
        using none [of x] market_metrics_market [of ?u x] by auto
    next
      fix x :: MarketInfo assume "\<not> MarketInfo.market x = MarketInfo.market m"
      then show "market_metrics ?u x = market_metrics u x \<and>
        (\<forall>r. market_metrics u x = Some r \<longrightarrow> CoinMetrics.market r \<noteq> MarketInfo.market m)"
        using market_metrics_market [of u x] by (auto simp: market_metrics_def)
    qed
    ultimately show ?thesis by blast
  qed
  from out absent others show ?thesis by blast
qed

theorem fetch_failure_isolated_witness:
  "fetchUpbitAPI (\<lambda>_. market_all (example_upstream Unreachable
         (Reply 200 (Some [candle (Fin 3), candle (Fin 2)])))) ''/v1/market/all''
     = Inr [market_info ''KRW-BTC'', market_info ''BTC-ETH'', market_info ''KRW-ETH'']
   \<and> market_info ''KRW-BTC''
       \<in> set (krwMarkets [market_info ''KRW-BTC'', market_info ''BTC-ETH'', market_info ''KRW-ETH''])
   \<and> fetchUpbitAPI (candles_days (example_upstream Unreachable
         (Reply 200 (Some [candle (Fin 3), candle (Fin 2)]))))
       (candles_endpoint (market_info ''KRW-BTC'')) = Inl NetworkError
   \<and> (\<exists>out out'. getCoinMetrics (example_upstream Unreachable
         (Reply 200 (Some [candle (Fin 3), candle (Fin 2)]))) = Inr out
        \<and> ''KRW-BTC'' \<notin> CoinMetrics.market ` set out
        \<and> getCoinMetrics (example_upstream (Reply 200 (Some [candle (Fin 9), candle (Fin 8)]))
             (Reply 200 (Some [candle (Fin 3), candle (Fin 2)]))) = Inr out'
        \<and> out = filter (\<lambda>r. CoinMetrics.market r \<noteq> ''KRW-BTC'') out')"
proof -
  let ?eth = "Reply 200 (Some [candle (Fin 3), candle (Fin 2)])"
  let ?u = "example_upstream Unreachable ?eth"
  let ?ms = "[market_info ''KRW-BTC'', market_info ''BTC-ETH'', market_info ''KRW-ETH'']"
  have a: "fetchUpbitAPI (\<lambda>_. market_all ?u) ''/v1/market/all'' = Inr ?ms"
    by (rule example_markets)
  have b: "market_info ''KRW-BTC'' \<in> set (krwMarkets ?ms)"
    by (simp add: example_krwMarkets)
  have c: "fetchUpbitAPI (candles_days ?u) (candles_endpoint (market_info ''KRW-BTC''))
             = Inl NetworkError"
    by (simp add: example_btc)
  from fetch_failure_isolated [OF a b c]
  obtain out where out: "getCoinMetrics ?u = Inr out"
      "\<forall>r \<in> set out. CoinMetrics.market r \<noteq> MarketInfo.market (market_info ''KRW-BTC'')"
      "\<forall>reply. \<exists>out'. getCoinMetrics (?u\<lparr>candles_days :=
          (candles_days ?u)(candles_endpoint (market_info ''KRW-BTC'') := reply)\<rparr>) = Inr out'
        \<and> out = filter (\<lambda>r. CoinMetrics.market r \<noteq> MarketInfo.market (market_info ''KRW-BTC'')) out'"
    by blast
  from out(3) obtain out' where out':
      "getCoinMetrics (example_upstream (Reply 200 (Some [candle (Fin 9), candle (Fin 8)])) ?eth) = Inr out'"
      "out = filter (\<lambda>r. CoinMetrics.market r \<noteq> MarketInfo.market (market_info ''KRW-BTC'')) out'"
    unfolding example_update by blast
  have m: "MarketInfo.market (market_info ''KRW-BTC'') = ''KRW-BTC''" by (simp add: market_info_def)
  have "''KRW-BTC'' \<notin> CoinMetrics.market ` set out" using out(2) unfolding m by auto
  with a b c out(1) out' show ?thesis unfolding m by blast
qed


section \<open>Properties of the dashboard\<close>

lemma js_gt_sub:
  "a \<noteq> NaN \<Longrightarrow> b \<noteq> NaN \<Longrightarrow> js_gt (js_sub b a) (Fin 0) = js_gt b a"
  by (cases a; cases b) (simp_all add: js_sub_def)

lemma js_not_gt_ge: "a \<noteq> NaN \<Longrightarrow> b \<noteq> NaN \<Longrightarrow> \<not> js_gt b a \<Longrightarrow> js_ge a b"
  by (cases a; cases b) (auto simp: js_ge_def js_eq_def)

lemma js_ge_trans: "js_ge a b \<Longrightarrow> js_ge b c \<Longrightarrow> js_ge a c"
  by (cases a; cases b; cases c) (auto simp: js_ge_def js_eq_def)

lemma mset_sort_insert: "mset (sort_insert cmp x ys) = add_mset x (mset ys)"
  by (induction ys) simp_all

lemma mset_js_sort: "mset (js_sort cmp xs) = mset xs"
  by (induction xs) (simp_all add: js_sort_def mset_sort_insert)

lemma set_sort_insert: "set (sort_insert cmp x ys) = insert x (set ys)"
  by (metis mset_sort_insert set_mset_add_mset_insert set_mset_mset)

lemma sorted_sort_insert:
  assumes "field x \<noteq> NaN" and "\<forall>y \<in> set ys. field y \<noteq> NaN"
    and "sorted_wrt (\<lambda>a b. js_ge (field a) (field b)) ys"
  shows "sorted_wrt (\<lambda>a b. js_ge (field a) (field b))
           (sort_insert (\<lambda>a b. js_sub (field b) (field a)) x ys)"
  using assms(2,3)
proof (induction ys)
  case Nil
  show ?case by simp
next
  case (Cons y ys)
  have y: "field y \<noteq> NaN" using Cons.prems(1) by simp
  show ?case
  proof (cases "js_gt (field y) (field x)")
    case True
    then have "js_ge (field y) (field x)" by (simp add: js_ge_def)
    then show ?thesis using True Cons assms(1) y
      by (simp add: js_gt_sub set_sort_insert)
  next
    case False
    then have xy: "js_ge (field x) (field y)" using assms(1) y by (simp add: js_not_gt_ge)
    have "\<forall>z \<in> set ys. js_ge (field x) (field z)"
      using Cons.prems(2) xy js_ge_trans by auto
    then show ?thesis using False Cons.prems(2) xy assms(1) y by (simp add: js_gt_sub)
  qed
qed

lemma sorted_js_sort:
  "\<forall>x \<in> set xs. field x \<noteq> NaN \<Longrightarrow>
   sorted_wrt (\<lambda>a b. js_ge (field a) (field b)) (js_sort (\<lambda>a b. js_sub (field b) (field a)) xs)"
proof (induction xs)
  case Nil
  show ?case by (simp add: js_sort_def)
next
  case (Cons x xs)
  have "\<forall>y \<in> set (js_sort (\<lambda>a b. js_sub (field b) (field a)) xs). field y \<noteq> NaN"
    using Cons.prems by (metis list.set_intros(2) mset_js_sort set_mset_mset)
  then have "sorted_wrt (\<lambda>a b. js_ge (field a) (field b))
          (sort_insert (\<lambda>a b. js_sub (field b) (field a)) x (js_sort (\<lambda>a b. js_sub (field b) (field a)) xs))"
    using Cons by (intro sorted_sort_insert) simp_all
  then show ?case by (simp add: js_sort_def)
qed

lemma rendered_eq:
  "rendered h metrics sortBy =
     (if sortBy = ''volume'' then js_sort (\<lambda>a b. js_sub (volume24h b) (volume24h a)) (h ! metrics)
      else if sortBy = ''rsi'' then js_sort (\<lambda>a b. js_sub (rsi b) (rsi a)) (h ! metrics)
      else if sortBy = ''change'' then
        js_sort (\<lambda>a b. js_sub (priceChangePercent b) (priceChangePercent a)) (h ! metrics)
      else h ! metrics)"
  by (simp add: rendered_def sortedMetrics_def array_copy_def array_sort_def)

lemma generateDashboard_store:
  "snd (generateDashboard t h metrics sortBy) = snd (sortedMetrics h metrics sortBy)"
  by (simp add: generateDashboard_def split_def Let_def)

lemma generateDashboard_rows:
  "fst (generateDashboard t h metrics sortBy) =
     page t sortBy (concat (map (\<lambda>(coin, index). row t coin index)
       (zip (rendered h metrics sortBy) [0..<length (rendered h metrics sortBy)])))"
  by (simp add: generateDashboard_def rendered_def split_def Let_def)

lemma example_coins_fields:
  "\<forall>c \<in> set ([example_coins] ! 0). volume24h c \<noteq> NaN"
  "\<forall>c \<in> set ([example_coins] ! 0). rsi c \<noteq> NaN"
  "\<forall>c \<in> set ([example_coins] ! 0). priceChangePercent c \<noteq> NaN"
  by (simp_all add: example_coins_def coin_def)

text \<open>
  Claim C9, as amended. The records that \<open>generateDashboard\<close> renders are always a
  permutation of the input. For the sort key \<open>volume\<close>, \<open>rsi\<close> or \<open>change\<close> they are
  ordered non-increasingly by \<open>volume24h\<close>, \<open>rsi\<close> or \<open>priceChangePercent\<close>, provided no
  record has NaN in that field. For any other key they are rendered in the input order.
\<close>

theorem rendered_order:
  "mset (rendered h metrics sortBy) = mset (h ! metrics)
   \<and> (sortBy = ''volume'' \<and> (\<forall>c \<in> set (h ! metrics). volume24h c \<noteq> NaN)
        \<longrightarrow> non_increasing volume24h (rendered h metrics sortBy))
   \<and> (sortBy = ''rsi'' \<and> (\<forall>c \<in> set (h ! metrics). rsi c \<noteq> NaN)
        \<longrightarrow> non_increasing rsi (rendered h metrics sortBy))
   \<and> (sortBy = ''change'' \<and> (\<forall>c \<in> set (h ! metrics). priceChangePercent c \<noteq> NaN)
        \<longrightarrow> non_increasing priceChangePercent (rendered h metrics sortBy))
   \<and> (sortBy \<noteq> ''volume'' \<and> sortBy \<noteq> ''rsi'' \<and> sortBy \<noteq> ''change''
        \<longrightarrow> rendered h metrics sortBy = h ! metrics)"
proof -
  have perm: "mset (rendered h metrics sortBy) = mset (h ! metrics)"
    by (simp add: rendered_eq mset_js_sort)
  have vol: "non_increasing volume24h (rendered h metrics sortBy)"
    if "sortBy = ''volume''" "\<forall>c \<in> set (h ! metrics). volume24h c \<noteq> NaN"
    using that sorted_js_sort [of "h ! metrics" volume24h]
    by (simp add: rendered_eq non_increasing_def)
  have rsi: "non_increasing rsi (rendered h metrics sortBy)"
    if "sortBy = ''rsi''" "\<forall>c \<in> set (h ! metrics). rsi c \<noteq> NaN"
    using that sorted_js_sort [of "h ! metrics" rsi]
    by (simp add: rendered_eq non_increasing_def)
  have chg: "non_increasing priceChangePercent (rendered h metrics sortBy)"
    if "sortBy = ''change''" "\<forall>c \<in> set (h ! metrics). priceChangePercent c \<noteq> NaN"
    using that sorted_js_sort [of "h ! metrics" priceChangePercent]
    by (simp add: rendered_eq non_increasing_def)
  have other: "rendered h metrics sortBy = h ! metrics"
    if "sortBy \<noteq> ''volume''" "sortBy \<noteq> ''rsi''" "sortBy \<noteq> ''change''"
    using that by (simp add: rendered_eq)
  from perm vol rsi chg other show ?thesis by blast
qed

theorem rendered_order_witness:
  "mset (rendered [example_coins] 0 ''volume'') = mset ([example_coins] ! 0)
   \<and> non_increasing volume24h (rendered [example_coins] 0 ''volume'')
   \<and> non_increasing rsi (rendered [example_coins] 0 ''rsi'')
   \<and> non_increasing priceChangePercent (rendered [example_coins] 0 ''change'')
   \<and> rendered [example_coins] 0 ''price'' = [example_coins] ! 0
   \<and> map CoinMetrics.market (rendered [example_coins] 0 ''volume'') = [''B'', ''C'', ''A'']
   \<and> map CoinMetrics.market (rendered [example_coins] 0 ''rsi'') = [''B'', ''C'', ''A'']
   \<and> map CoinMetrics.market (rendered [example_coins] 0 ''change'') = [''C'', ''A'', ''B'']"
proof -
  have names: "map CoinMetrics.market (rendered [example_coins] 0 ''volume'') = [''B'', ''C'', ''A'']"
    "map CoinMetrics.market (rendered [example_coins] 0 ''rsi'') = [''B'', ''C'', ''A'']"
    "map CoinMetrics.market (rendered [example_coins] 0 ''change'') = [''C'', ''A'', ''B'']"
    by (simp_all add: rendered_eq js_sort_def example_coins_def coin_def js_sub_def)
  show ?thesis
    using rendered_order [of "[example_coins]" 0 "''volume''"]
      rendered_order [of "[example_coins]" 0 "''rsi''"]
      rendered_order [of "[example_coins]" 0 "''change''"]
      rendered_order [of "[example_coins]" 0 "''price''"]
      example_coins_fields names
    by simp
qed

text \<open>
  A record whose percent change is NaN (both of its prices were zero) compares as equal to
  every other record, so the sort leaves the percent changes 1, NaN, 2 in this order.
\<close>

theorem rendered_order_counterexample:
  "rendered [[coin ''A'' (Fin 1) (Fin 50) (Fin 1), coin ''B'' (Fin 1) (Fin 50) NaN,
              coin ''C'' (Fin 1) (Fin 50) (Fin 2)]] 0 ''change''
     = [coin ''A'' (Fin 1) (Fin 50) (Fin 1), coin ''B'' (Fin 1) (Fin 50) NaN,
        coin ''C'' (Fin 1) (Fin 50) (Fin 2)]
   \<and> \<not> non_increasing priceChangePercent
         (rendered [[coin ''A'' (Fin 1) (Fin 50) (Fin 1), coin ''B'' (Fin 1) (Fin 50) NaN,
              coin ''C'' (Fin 1) (Fin 50) (Fin 2)]] 0 ''change'')"
  by (simp add: rendered_eq js_sort_def coin_def js_sub_def non_increasing_def js_ge_def js_eq_def)

text \<open>
  Claim C10. \<open>generateDashboard\<close> does not change the array it is given: after the call
  the caller's reference holds the same records in the same order, as does every other
  array that existed before the call. The sort works on the copy.
\<close>

theorem generateDashboard_frame:
  "metrics < length h \<Longrightarrow>
   snd (generateDashboard t h metrics sortBy) ! metrics = h ! metrics
   \<and> take (length h) (snd (generateDashboard t h metrics sortBy)) = h"
  by (simp add: generateDashboard_store sortedMetrics_def array_copy_def array_sort_def
      nth_append)

theorem generateDashboard_frame_witness:
  "0 < length [example_coins]
   \<and> snd (generateDashboard plain_template [example_coins] 0 ''volume'') ! 0 = [example_coins] ! 0
   \<and> take (length [example_coins]) (snd (generateDashboard plain_template [example_coins] 0 ''volume''))
        = [example_coins]
   \<and> fst (generateDashboard plain_template [example_coins] 0 ''volume'') = ''BCA''"
proof -
  have "fst (generateDashboard plain_template [example_coins] 0 ''volume'') = ''BCA''"
    by (simp add: generateDashboard_rows rendered_eq js_sort_def example_coins_def coin_def
        js_sub_def plain_template_def)
  then show ?thesis
    using generateDashboard_frame [of 0 "[example_coins]" plain_template "''volume''"] by simp
qed

end
